theory Spec2Isabelle
  imports Main "HOL-Library.Word"
begin

section \<open>The hints manager of db/hints/manager.hh\<close>

text \<open>
  A shallow embedding of \<^verbatim>\<open>db::hints::manager\<close> and of its nested classes
  \<^verbatim>\<open>end_point_hints_manager\<close>, \<^verbatim>\<open>sender\<close> and \<^verbatim>\<open>space_watchdog\<close>.
  Classes are records, the private members keep their names without the leading
  underscore (prefixed where two classes use the same name), member functions take the
  object and return the updated one, \<^verbatim>\<open>uint64_t\<close> and \<^verbatim>\<open>size_t\<close> are 64-bit words.
  References to the parent object, to the storage proxy, the database and the gossiper,
  the mutexes and the metric groups carry no value of their own and are left out.
  The header declares most member functions without a body. Those with a body in the
  header are translated from it; \<^verbatim>\<open>store_hint\<close>, \<^verbatim>\<open>on_timer\<close> with
  \<^verbatim>\<open>scan_one_ep_dir\<close>, and \<^verbatim>\<open>do_send_one_mutation\<close> are modelled from their
  documentation, and each says so where it is defined. The replay loop
  (\<^verbatim>\<open>send_one_file\<close>, \<^verbatim>\<open>send_one_hint\<close>) and the send semaphore's accounting are
  not modelled.
\<close>

subsection \<open>Collaborator types\<close>

type_synonym uint64 = "64 word"

type_synonym size_t = "64 word"

text \<open>
  Modelled from the spec: \<^verbatim>\<open>gms::inet_address\<close> is declared in gms/. It is ``an opaque
  network address, used as a map key and as a directory name (string form)''; the string
  form stands for it.
\<close>

type_synonym inet_address = string

text \<open>
  Modelled from the spec: \<^verbatim>\<open>db::replay_position\<close> is declared in db/commitlog/. It is
  ``a total order over hints within a single segment''.
\<close>

type_synonym replay_position = nat

text \<open>Time points of \<^verbatim>\<open>seastar::lowres_clock\<close>, as ticks.\<close>

type_synonym time_point = nat

text \<open>
  Modelled from the spec: \<^verbatim>\<open>enum_set\<close> is declared in utils/enum_set.hh, not in
  db/hints/manager.hh. The specification has the states as ``a set, not mutually
  exclusive'' of flags that are set or unset: a set of enumerators with the operations
  \<^verbatim>\<open>set\<close>, \<^verbatim>\<open>remove\<close> and \<^verbatim>\<open>contains\<close> the header calls.
\<close>

definition enum_set_set :: "'e \<Rightarrow> 'e set \<Rightarrow> 'e set" where
  "enum_set_set e s = insert e s"

definition enum_set_remove :: "'e \<Rightarrow> 'e set \<Rightarrow> 'e set" where
  "enum_set_remove e s = s - {e}"

definition enum_set_contains :: "'e set \<Rightarrow> 'e \<Rightarrow> bool" where
  "enum_set_contains s e = (e \<in> s)"

text \<open>
  A \<^verbatim>\<open>seastar::future\<close> is either resolved with a value, resolved with an exception,
  or not resolved yet. \<^verbatim>\<open>make_ready_future\<close> builds the first kind.
\<close>

datatype 'a future = ready 'a | exceptional | pending

definition make_ready_future :: "'a \<Rightarrow> 'a future" where
  "make_ready_future v = ready v"

fun available :: "'a future \<Rightarrow> bool" where
  "available pending = False"
| "available _ = True"

fun failed :: "'a future \<Rightarrow> bool" where
  "failed exceptional = True"
| "failed _ = False"

subsection \<open>manager::stats\<close>

record stats =
  size_of_hints_in_progress :: uint64
  written :: uint64
  errors :: uint64
  dropped :: uint64
  sent :: uint64

definition stats_init :: stats where
  "stats_init = \<lparr>size_of_hints_in_progress = 0, written = 0, errors = 0, dropped = 0, sent = 0\<rparr>"

subsection \<open>end\_point\_hints\_manager::sender\<close>

datatype sender_state = sender_stopping | ep_state_is_not_normal

datatype send_state = segment_replay_failed | restart_segment

record send_one_file_ctx =
  rps_set :: "replay_position set"
  ctx_state :: "send_state set"

record sender =
  segments_to_replay :: "string list"
  last_not_complete_rp :: replay_position
  sender_state :: "sender_state set"
  next_flush_tp :: time_point
  next_send_retry_tp :: time_point
  sender_ep_key :: inet_address

definition have_segments :: "sender \<Rightarrow> bool" where
  "have_segments sndr \<longleftrightarrow> segments_to_replay sndr \<noteq> []"

subsection \<open>end\_point\_hints\_manager\<close>

datatype state = state_can_hint | state_stopping

text \<open>A frozen mutation is its serialized representation; its size is its length in bytes.\<close>

type_synonym frozen_mutation = "8 word list"

text \<open>
  \<^verbatim>\<open>_hints_store_anchor\<close> is a shared pointer to the end point's commitlog: empty until
  the store is loaded, then the names of the segments the store holds.
  \<^verbatim>\<open>_store_gate\<close> is a gate: it holds the operations that entered it and have not
  completed, here the appends of hints to the store.
\<close>

record end_point_hints_manager =
  key :: inet_address
  hints_store_anchor :: "string list option"
  store_gate :: "frozen_mutation list"
  ep_state :: "state set"
  ep_hints_dir :: string
  hints_in_progress :: uint64
  ep_sender :: sender

definition end_point_key :: "end_point_hints_manager \<Rightarrow> inet_address" where
  "end_point_key ep = key ep"

definition can_hint :: "end_point_hints_manager \<Rightarrow> bool" where
  "can_hint ep = enum_set_contains (ep_state ep) state_can_hint"

definition allow_hints :: "end_point_hints_manager \<Rightarrow> end_point_hints_manager" where
  "allow_hints ep = ep\<lparr>ep_state := enum_set_set state_can_hint (ep_state ep)\<rparr>"

definition forbid_hints :: "end_point_hints_manager \<Rightarrow> end_point_hints_manager" where
  "forbid_hints ep = ep\<lparr>ep_state := enum_set_remove state_can_hint (ep_state ep)\<rparr>"

definition set_stopping :: "end_point_hints_manager \<Rightarrow> end_point_hints_manager" where
  "set_stopping ep = ep\<lparr>ep_state := enum_set_set state_stopping (ep_state ep)\<rparr>"

definition stopping :: "end_point_hints_manager \<Rightarrow> bool" where
  "stopping ep = enum_set_contains (ep_state ep) state_stopping"

subsection \<open>manager::space\_watchdog\<close>

record space_watchdog =
  eps_with_pending_hints :: "inet_address set"
  total_size :: size_t
  files_count :: int

subsection \<open>manager\<close>

definition max_size_of_hints_in_progress :: uint64 where
  "max_size_of_hints_in_progress = 10 * 1024 * 1024"

definition hint_segment_size_in_mb :: size_t where
  "hint_segment_size_in_mb = 32"

definition max_hints_per_ep_size_mb :: size_t where
  "max_hints_per_ep_size_mb = 128"

definition max_hints_send_queue_length :: size_t where
  "max_hints_send_queue_length = 128"

text \<open>
  \<^verbatim>\<open>_ep_managers\<close> is an unordered map from end point keys to end point managers.
  \<^verbatim>\<open>_send_limiter\<close> is a semaphore: its value is the number of units available.
\<close>

record manager =
  hints_dir :: string
  hinted_dcs :: "string set"
  max_hint_window_us :: int
  mgr_stopping :: bool
  max_send_in_flight_memory :: size_t
  min_send_hint_budget :: size_t
  send_limiter :: int
  watchdog :: space_watchdog
  ep_managers :: "inet_address \<rightharpoonup> end_point_hints_manager"
  mgr_stats :: stats

text \<open>
  \<^verbatim>\<open>find_ep_manager\<close> returns an iterator: \<^verbatim>\<open>ep_managers_end()\<close> is \<open>None\<close>, an
  iterator to an entry is the entry's value (\<^verbatim>\<open>it->second\<close>).
\<close>

definition find_ep_manager :: "manager \<Rightarrow> inet_address \<Rightarrow> end_point_hints_manager option" where
  "find_ep_manager m ep_key = ep_managers m ep_key"

definition manager_size_of_hints_in_progress :: "manager \<Rightarrow> uint64" where
  "manager_size_of_hints_in_progress m = size_of_hints_in_progress (mgr_stats m)"

text \<open>
  \<^verbatim>\<open>hints_in_progress_for\<close> is a \<^verbatim>\<open>const\<close> member: it returns its value and the
  manager it was called on, which it has no means to change.
\<close>

definition hints_in_progress_for :: "inet_address \<Rightarrow> manager \<Rightarrow> uint64 \<times> manager" where
  "hints_in_progress_for ep m =
     (case find_ep_manager m ep of
        None \<Rightarrow> (0, m)
      | Some it \<Rightarrow> (hints_in_progress it, m))"

text \<open>
  A shard: its manager and the hints directory on disk, every end point directory with
  the sizes in bytes of the segment files in it.
\<close>

record shard =
  shard_manager :: manager
  disk :: "(inet_address \<times> uint64 list) list"

text \<open>
  \<^verbatim>\<open>rebalance\<close> is a static member with no argument: it is given no object at all, so
  the shard it runs on comes back as it was.
\<close>

definition rebalance :: "shard \<Rightarrow> unit future \<times> shard" where
  "rebalance sh = (make_ready_future (), sh)"

subsection \<open>end\_point\_hints\_manager::store\_hint\<close>

text \<open>
  Modelled from the spec: the body of \<^verbatim>\<open>end_point_hints_manager::store_hint\<close> is not in
  db/hints/manager.hh, which only declares it (``return FALSE if hint is definitely not
  going to be stored''). The admission test and the two outcomes are those of section 4.2
  of the specification: the hint is refused, and \<^verbatim>\<open>dropped\<close> incremented, when the
  writer is stopping, \<^verbatim>\<open>can_hint\<close> is unset, or the in-flight hint bytes together with
  this mutation would exceed \<^verbatim>\<open>_max_size_of_hints_in_progress\<close>; otherwise it
  ``increments \<^verbatim>\<open>hints_in_progress\<close> by the mutation size, enqueues the durable append,
  returns true immediately''. The append enters the store gate, where it stays until it
  completes. The in-flight hint bytes of the shard are its statistics' live gauge
  \<^verbatim>\<open>size_of_hints_in_progress\<close> (sections 3, 4.6 and 8 of the specification), which an
  accepted hint raises by its size as well.
  The function works on the shard statistics (reached through \<^verbatim>\<open>shard_stats()\<close>) and
  on the end point manager.
\<close>

definition too_many_bytes_in_flight :: "stats \<Rightarrow> frozen_mutation \<Rightarrow> bool" where
  "too_many_bytes_in_flight st fm \<longleftrightarrow>
     unat (size_of_hints_in_progress st) + length fm > unat max_size_of_hints_in_progress"

definition store_hint ::
  "frozen_mutation \<Rightarrow> stats \<times> end_point_hints_manager \<Rightarrow> bool \<times> stats \<times> end_point_hints_manager"
where
  "store_hint fm s =
     (case s of (st, ep) \<Rightarrow>
        if stopping ep \<or> \<not> can_hint ep \<or> too_many_bytes_in_flight st fm
        then (False, st\<lparr>dropped := dropped st + 1\<rparr>, ep)
        else (True,
              st\<lparr>size_of_hints_in_progress := size_of_hints_in_progress st + of_nat (length fm)\<rparr>,
              ep\<lparr>hints_in_progress := hints_in_progress ep + of_nat (length fm),
                 store_gate := store_gate ep @ [fm]\<rparr>))"

subsection \<open>space\_watchdog::on\_timer\<close>








subsection \<open>sender::do\_send\_one\_mutation\<close>

text \<open>
  Modelled from the spec: the body of \<^verbatim>\<open>sender::do_send_one_mutation\<close> is not in
  db/hints/manager.hh. The header documents it: ``If the original destination end point
  is still a replica for the given mutation - send the mutation directly to it, otherwise
  execute the mutation "from scratch" with CL=ANY''; section 4.3 of the specification
  adds that the direct send has a write consistency of ONE and targets that end point
  alone. The result is the request handed to the storage proxy.
\<close>

datatype consistency_level = ANY | ONE | TWO | THREE | QUORUM | ALL

type_synonym mutation = "8 word list"

datatype write_request =
  send_to_endpoints mutation "inet_address list" consistency_level
| mutate mutation consistency_level

definition do_send_one_mutation :: "sender \<Rightarrow> mutation \<Rightarrow> inet_address list \<Rightarrow> write_request" where
  "do_send_one_mutation sndr m natural_endpoints =
     (if sender_ep_key sndr \<in> set natural_endpoints
      then send_to_endpoints m [sender_ep_key sndr] ONE
      else mutate m ANY)"

subsection \<open>A shard to run the definitions on\<close>

text \<open>
  Two end points with an end point manager each, both allowed to hint; the first has two
  segment files on disk (600 and 500 bytes), the second one (300 bytes).
\<close>

definition example_sender :: "inet_address \<Rightarrow> sender" where
  "example_sender k = \<lparr>segments_to_replay = [], last_not_complete_rp = 0, sender_state = {},
     next_flush_tp = 0, next_send_retry_tp = 0, sender_ep_key = k\<rparr>"

definition example_ep :: "inet_address \<Rightarrow> end_point_hints_manager" where
  "example_ep k = \<lparr>key = k, hints_store_anchor = None, store_gate = [],
     ep_state = {state_can_hint}, ep_hints_dir = ''hints/0/'' @ k, hints_in_progress = 0,
     ep_sender = example_sender k\<rparr>"

definition example_manager :: manager where
  "example_manager = \<lparr>hints_dir = ''hints/0'', hinted_dcs = {}, max_hint_window_us = 0,
     mgr_stopping = False, max_send_in_flight_memory = 1000000, min_send_hint_budget = 7812,
     send_limiter = 1000000,
     watchdog = \<lparr>eps_with_pending_hints = {}, total_size = 0, files_count = 0\<rparr>,
     ep_managers = [''10.0.0.1'' \<mapsto> example_ep ''10.0.0.1'', ''10.0.0.2'' \<mapsto> example_ep ''10.0.0.2''],
     mgr_stats = stats_init\<rparr>"




section \<open>Configuration constants\<close>

text \<open>
  C7. The compile-time constants of the shard manager: \<^verbatim>\<open>_max_size_of_hints_in_progress\<close>
  is 10 * 1024 * 1024 bytes (10 MiB, computed in 64 bits without wrap-around),
  \<^verbatim>\<open>_hint_segment_size_in_mb\<close> is 32, \<^verbatim>\<open>_max_hints_per_ep_size_mb\<close> is 128 and
  \<^verbatim>\<open>_max_hints_send_queue_length\<close> is 128.
\<close>

theorem manager_constants:
  "unat max_size_of_hints_in_progress = 10 * 1024 * 1024
   \<and> unat max_size_of_hints_in_progress = 10485760
   \<and> unat hint_segment_size_in_mb = 32
   \<and> unat max_hints_per_ep_size_mb = 128
   \<and> unat max_hints_send_queue_length = 128"
  by (simp add: max_size_of_hints_in_progress_def hint_segment_size_in_mb_def
      max_hints_per_ep_size_mb_def max_hints_send_queue_length_def)

section \<open>rebalance\<close>

text \<open>
  C8. For every shard state, \<^verbatim>\<open>rebalance()\<close> returns a future that is already
  resolved (available and not failed) and leaves the state as it was: the statistics,
  the end point managers with their admission flags, and the files on disk.
\<close>

theorem rebalance_is_noop:
  "fst (rebalance sh) = make_ready_future ()
   \<and> available (fst (rebalance sh))
   \<and> \<not> failed (fst (rebalance sh))
   \<and> snd (rebalance sh) = sh
   \<and> mgr_stats (shard_manager (snd (rebalance sh))) = mgr_stats (shard_manager sh)
   \<and> ep_managers (shard_manager (snd (rebalance sh))) = ep_managers (shard_manager sh)
   \<and> disk (snd (rebalance sh)) = disk sh"
  by (simp add: rebalance_def make_ready_future_def)

section \<open>hints\_in\_progress\_for\<close>

text \<open>
  C9. For an end point that has no end point manager on the shard,
  \<^verbatim>\<open>hints_in_progress_for\<close> returns 0, leaves the manager as it was, and in particular
  creates no end point manager for it.
\<close>

theorem hints_in_progress_for_absent:
  assumes "find_ep_manager m ep = None"
  shows "fst (hints_in_progress_for ep m) = 0
         \<and> snd (hints_in_progress_for ep m) = m
         \<and> find_ep_manager (snd (hints_in_progress_for ep m)) ep = None"
  using assms by (simp add: hints_in_progress_for_def)

theorem hints_in_progress_for_absent_witness:
  "find_ep_manager example_manager ''10.0.0.9'' = None
   \<and> fst (hints_in_progress_for ''10.0.0.9'' example_manager) = 0
   \<and> snd (hints_in_progress_for ''10.0.0.9'' example_manager) = example_manager
   \<and> find_ep_manager (snd (hints_in_progress_for ''10.0.0.9'' example_manager)) ''10.0.0.9'' = None"
proof -
  have absent: "find_ep_manager example_manager ''10.0.0.9'' = None"
    by (simp add: find_ep_manager_def example_manager_def)
  from hints_in_progress_for_absent [OF absent] absent show ?thesis by simp
qed

section \<open>allow\_hints and forbid\_hints\<close>

text \<open>
  C10. For every end point manager, \<^verbatim>\<open>can_hint()\<close> is true after \<^verbatim>\<open>allow_hints()\<close> and
  false after \<^verbatim>\<open>forbid_hints()\<close>; neither call changes \<^verbatim>\<open>stopping()\<close>, and neither
  changes anything but the \<^verbatim>\<open>can_hint\<close> enumerator of the state set: the key, the
  in-progress counter, the segment store and its gate, the directory and the sender with
  its replay queue stay as they were. Calling either twice is calling it once.
\<close>

theorem allow_forbid_hints_frame:
  "can_hint (allow_hints ep)
   \<and> \<not> can_hint (forbid_hints ep)
   \<and> stopping (allow_hints ep) = stopping ep
   \<and> stopping (forbid_hints ep) = stopping ep
   \<and> allow_hints ep = ep\<lparr>ep_state := insert state_can_hint (ep_state ep)\<rparr>
   \<and> forbid_hints ep = ep\<lparr>ep_state := ep_state ep - {state_can_hint}\<rparr>
   \<and> key (allow_hints ep) = key ep \<and> key (forbid_hints ep) = key ep
   \<and> hints_in_progress (allow_hints ep) = hints_in_progress ep
   \<and> hints_in_progress (forbid_hints ep) = hints_in_progress ep
   \<and> hints_store_anchor (allow_hints ep) = hints_store_anchor ep
   \<and> hints_store_anchor (forbid_hints ep) = hints_store_anchor ep
   \<and> store_gate (allow_hints ep) = store_gate ep
   \<and> store_gate (forbid_hints ep) = store_gate ep
   \<and> ep_hints_dir (allow_hints ep) = ep_hints_dir ep
   \<and> ep_hints_dir (forbid_hints ep) = ep_hints_dir ep
   \<and> ep_sender (allow_hints ep) = ep_sender ep
   \<and> ep_sender (forbid_hints ep) = ep_sender ep
   \<and> allow_hints (allow_hints ep) = allow_hints ep
   \<and> forbid_hints (forbid_hints ep) = forbid_hints ep"
  by (simp add: can_hint_def stopping_def allow_hints_def forbid_hints_def
      enum_set_contains_def enum_set_set_def enum_set_remove_def)

section \<open>store\_hint\<close>

lemma max_size_of_hints_in_progress_unat: "unat max_size_of_hints_in_progress = 10485760"
  by (simp add: max_size_of_hints_in_progress_def)

lemma admitted_gauge:
  assumes "\<not> too_many_bytes_in_flight st fm"
  shows "unat (size_of_hints_in_progress st + of_nat (length fm))
           = unat (size_of_hints_in_progress st) + length fm"
proof -
  have le: "unat (size_of_hints_in_progress st) + length fm \<le> 10485760"
    using assms by (simp add: too_many_bytes_in_flight_def max_size_of_hints_in_progress_unat)
  then have len: "length fm < 2 ^ LENGTH(64)" by simp
  have n: "unat (of_nat (length fm) :: uint64) = length fm"
    using len by (simp add: unat_of_nat)
  have "unat (size_of_hints_in_progress st) + unat (of_nat (length fm) :: uint64) < 2 ^ LENGTH(64)"
    using le n by simp
  then have "unat (size_of_hints_in_progress st + of_nat (length fm))
      = unat (size_of_hints_in_progress st) + unat (of_nat (length fm) :: uint64)"
    by (simp only: unat_add_lem)
  with n show ?thesis by simp
qed

text \<open>
  C1. \<^verbatim>\<open>store_hint\<close> returns false if and only if the writer is stopping, or
  \<^verbatim>\<open>can_hint\<close> is unset, or the in-flight hint bytes plus the mutation's size would
  exceed \<^verbatim>\<open>_max_size_of_hints_in_progress\<close>; it then increments \<^verbatim>\<open>dropped\<close> and changes
  nothing else. Otherwise it returns true with \<^verbatim>\<open>hints_in_progress\<close> higher by the
  mutation's size and the append in the store gate, not completed: \<^verbatim>\<open>written\<close> and
  \<^verbatim>\<open>errors\<close> are as before. The shard's in-flight bytes are then higher by the
  mutation's size, without wrap-around and within the maximum.
\<close>

theorem store_hint_admission:
  "(fst (store_hint fm (st, ep)) = False)
     = (stopping ep \<or> \<not> can_hint ep
        \<or> unat (size_of_hints_in_progress st) + length fm > unat max_size_of_hints_in_progress)
   \<and> (fst (store_hint fm (st, ep)) = False \<longrightarrow>
        snd (store_hint fm (st, ep)) = (st\<lparr>dropped := dropped st + 1\<rparr>, ep))
   \<and> (fst (store_hint fm (st, ep)) = True \<longrightarrow>
        (\<exists>st' ep'. snd (store_hint fm (st, ep)) = (st', ep')
           \<and> hints_in_progress ep' = hints_in_progress ep + of_nat (length fm)
           \<and> size_of_hints_in_progress st' = size_of_hints_in_progress st + of_nat (length fm)
           \<and> unat (size_of_hints_in_progress st') = unat (size_of_hints_in_progress st) + length fm
           \<and> unat (size_of_hints_in_progress st') \<le> unat max_size_of_hints_in_progress
           \<and> store_gate ep' = store_gate ep @ [fm]
           \<and> written st' = written st \<and> errors st' = errors st
           \<and> dropped st' = dropped st \<and> sent st' = sent st
           \<and> ep' = ep\<lparr>hints_in_progress := hints_in_progress ep', store_gate := store_gate ep'\<rparr>))"
proof (cases "stopping ep \<or> \<not> can_hint ep \<or> too_many_bytes_in_flight st fm")
  case True
  then show ?thesis
    by (auto simp add: store_hint_def too_many_bytes_in_flight_def)
next
  case False
  then have ok: "\<not> too_many_bytes_in_flight st fm" by simp
  have le: "unat (size_of_hints_in_progress st) + length fm \<le> unat max_size_of_hints_in_progress"
    using ok by (simp add: too_many_bytes_in_flight_def)
  from False le show ?thesis
    by (simp add: store_hint_def admitted_gauge [OF ok] too_many_bytes_in_flight_def)
qed

theorem store_hint_admission_witness:
  "fst (store_hint [1, 2, 3] (stats_init, example_ep ''10.0.0.1'')) = True
   \<and> \<not> (stopping (example_ep ''10.0.0.1'') \<or> \<not> can_hint (example_ep ''10.0.0.1'')
          \<or> unat (size_of_hints_in_progress stats_init) + length [1, 2, 3 :: 8 word]
              > unat max_size_of_hints_in_progress)
   \<and> hints_in_progress (snd (snd (store_hint [1, 2, 3] (stats_init, example_ep ''10.0.0.1'')))) = 3
   \<and> size_of_hints_in_progress (fst (snd (store_hint [1, 2, 3] (stats_init, example_ep ''10.0.0.1'')))) = 3
   \<and> store_gate (snd (snd (store_hint [1, 2, 3] (stats_init, example_ep ''10.0.0.1'')))) = [[1, 2, 3]]
   \<and> fst (store_hint [1, 2, 3] (stats_init, forbid_hints (example_ep ''10.0.0.1''))) = False
   \<and> snd (store_hint [1, 2, 3] (stats_init, forbid_hints (example_ep ''10.0.0.1'')))
       = (stats_init\<lparr>dropped := 1\<rparr>, forbid_hints (example_ep ''10.0.0.1''))"
proof -
  have ok: "can_hint (example_ep ''10.0.0.1'') \<and> \<not> stopping (example_ep ''10.0.0.1'')"
    by (simp add: can_hint_def stopping_def example_ep_def enum_set_contains_def)
  have room: "\<not> unat (size_of_hints_in_progress stats_init) + length [1, 2, 3 :: 8 word]
      > unat max_size_of_hints_in_progress"
    by (simp add: stats_init_def max_size_of_hints_in_progress_def)
  have no: "\<not> can_hint (forbid_hints (example_ep ''10.0.0.1''))"
    by (simp add: can_hint_def forbid_hints_def enum_set_contains_def enum_set_remove_def)
  have z: "dropped stats_init = 0" "size_of_hints_in_progress stats_init = 0"
    by (simp_all add: stats_init_def)
  have g: "store_gate (example_ep ''10.0.0.1'') = []"
      "hints_in_progress (example_ep ''10.0.0.1'') = 0"
    by (simp_all add: example_ep_def)
  show ?thesis
    using store_hint_admission [of "[1, 2, 3]" stats_init "example_ep ''10.0.0.1''"]
          store_hint_admission [of "[1, 2, 3]" stats_init "forbid_hints (example_ep ''10.0.0.1'')"]
          ok room no z g
    by auto
qed

section \<open>The space watchdog\<close>





















section \<open>Dispatch of a replayed hint\<close>

text \<open>
  C6. \<^verbatim>\<open>do_send_one_mutation\<close> takes exactly one of two paths. If the sender's end point
  is among the natural end points of the mutation, the mutation is sent to that end point
  alone with consistency ONE; otherwise it is handed to the coordinator write path with
  consistency ANY.
\<close>

theorem do_send_one_mutation_dispatch:
  "(sender_ep_key sndr \<in> set natural_endpoints \<longrightarrow>
      do_send_one_mutation sndr m natural_endpoints = send_to_endpoints m [sender_ep_key sndr] ONE)
   \<and> (sender_ep_key sndr \<notin> set natural_endpoints \<longrightarrow>
      do_send_one_mutation sndr m natural_endpoints = mutate m ANY)
   \<and> ((\<exists>eps cl. do_send_one_mutation sndr m natural_endpoints = send_to_endpoints m eps cl)
        \<noteq> (\<exists>cl. do_send_one_mutation sndr m natural_endpoints = mutate m cl))"
  by (simp add: do_send_one_mutation_def)

theorem do_send_one_mutation_dispatch_witness:
  "do_send_one_mutation (example_sender ''10.0.0.1'') [7] [''10.0.0.3'', ''10.0.0.1'']
     = send_to_endpoints [7] [''10.0.0.1''] ONE
   \<and> do_send_one_mutation (example_sender ''10.0.0.1'') [7] [''10.0.0.3'', ''10.0.0.2'']
     = mutate [7] ANY"
  using do_send_one_mutation_dispatch [of "example_sender ''10.0.0.1''" "[''10.0.0.3'', ''10.0.0.1'']" "[7]"]
        do_send_one_mutation_dispatch [of "example_sender ''10.0.0.1''" "[''10.0.0.3'', ''10.0.0.2'']" "[7]"]
  by (simp add: example_sender_def)

end
